theory Spec2Isabelle
  imports Complex_Main
begin

section \<open>The bouncing ball of \<open>ball_animation.py\<close>\<close>

text \<open>
  The module keeps the ball in global variables and registers \<open>update\<close> as the
  per-frame callback of the drawing toolkit. The body of \<open>update\<close> uses only
  \<open>+\<close>, \<open>-\<close>, unary minus and the comparisons \<open>>\<close> and \<open><\<close> on its
  numbers, so the embedding leaves the number type open: any linearly ordered ring,
  with \<open>int\<close> (Python's unbounded integers, which the module starts with) and
  \<open>real\<close> as instances.
\<close>

subsection \<open>Canvas\<close>

text \<open>
  Modelled from the spec: the canvas of the toolkit (\<open>simplekit\<close>, not part of the
  source file) is an opaque collaborator with the operations \<open>clear()\<close>,
  \<open>circle(x, y, radius, fill)\<close> and \<open>update()\<close>. It is represented by the sequence of
  calls it has received since it was created, oldest first; \<open>Canvas_clear\<close>,
  \<open>Canvas_circle\<close> and \<open>Canvas_update\<close> are the three methods.
\<close>

datatype 'a canvas_call =
    Clear
  | Circle 'a 'a 'a string
  | Update

type_synonym 'a canvas_log = "'a canvas_call list"

definition Canvas :: "'a \<Rightarrow> 'a \<Rightarrow> 'a canvas_log" where
  "Canvas w h = []"

definition Canvas_clear :: "'a canvas_log \<Rightarrow> 'a canvas_log" where
  "Canvas_clear c = c @ [Clear]"

definition Canvas_circle :: "'a canvas_log \<Rightarrow> 'a \<Rightarrow> 'a \<Rightarrow> 'a \<Rightarrow> string \<Rightarrow> 'a canvas_log" where
  "Canvas_circle c x y r fill = c @ [Circle x y r fill]"

definition Canvas_update :: "'a canvas_log \<Rightarrow> 'a canvas_log" where
  "Canvas_update c = c @ [Update]"

subsection \<open>Module constants and globals\<close>

definition WIDTH :: "'a::numeral" where
  "WIDTH = 800"

definition HEIGHT :: "'a::numeral" where
  "HEIGHT = 600"

text \<open>The module's variables; \<open>update\<close> declares \<open>ball_x, ball_y, dx, dy\<close> global
  and only reads the others.\<close>

record 'a globals =
  canvas :: "'a canvas_log"
  ball_x :: 'a
  ball_y :: 'a
  ball_radius :: 'a
  dx :: 'a
  dy :: 'a
  ball_color :: string

text \<open>The state after the module's top-level assignments (\<open>//\<close> is floor division).\<close>

definition initial :: "int globals" where
  "initial =
     \<lparr> canvas = Canvas WIDTH HEIGHT,
       ball_x = WIDTH div 2,
       ball_y = HEIGHT div 2,
       ball_radius = 20,
       dx = 5,
       dy = 5,
       ball_color = ''red'' \<rparr>"

subsection \<open>The per-frame callback\<close>

text \<open>The blocks of \<open>update\<close>, named after the comments that head them in the source.\<close>

definition update_ball_position :: "'a::linordered_idom globals \<Rightarrow> 'a globals" where
  "update_ball_position s =
     (let s = s\<lparr>ball_x := ball_x s + dx s\<rparr>;
          s = s\<lparr>ball_y := ball_y s + dy s\<rparr>
      in s)"

definition bounce_off_walls :: "'a::linordered_idom globals \<Rightarrow> 'a globals" where
  "bounce_off_walls s =
     (let s = (if ball_x s + ball_radius s > WIDTH \<or> ball_x s - ball_radius s < 0
               then s\<lparr>dx := - dx s\<rparr> else s);
          s = (if ball_y s + ball_radius s > HEIGHT \<or> ball_y s - ball_radius s < 0
               then s\<lparr>dy := - dy s\<rparr> else s)
      in s)"

definition clear_canvas :: "'a globals \<Rightarrow> 'a globals" where
  "clear_canvas s = s\<lparr>canvas := Canvas_clear (canvas s)\<rparr>"

definition draw_ball :: "'a globals \<Rightarrow> 'a globals" where
  "draw_ball s =
     s\<lparr>canvas := Canvas_circle (canvas s) (ball_x s) (ball_y s) (ball_radius s) (ball_color s)\<rparr>"

definition update_display :: "'a globals \<Rightarrow> 'a globals" where
  "update_display s = s\<lparr>canvas := Canvas_update (canvas s)\<rparr>"

definition update :: "'a::linordered_idom globals \<Rightarrow> 'a globals" where
  "update s =
     (let s = update_ball_position s;
          s = bounce_off_walls s;
          s = clear_canvas s;
          s = draw_ball s;
          s = update_display s
      in s)"

text \<open>
  Modelled from the spec: the driver behind \<open>animate(update)\<close> and \<open>run()\<close> (in the
  toolkit, not in the source file) invokes the callback once per frame;
  \<open>animate n s\<close> is the module state after \<open>n\<close> frames from \<open>s\<close>.
\<close>

primrec animate :: "nat \<Rightarrow> 'a::linordered_idom globals \<Rightarrow> 'a globals" where
  "animate 0 s = s"
| "animate (Suc n) s = update (animate n s)"

section \<open>Facts about one update\<close>

lemma update_canvas:
  "canvas (update s) =
     canvas s @ [Clear, Circle (ball_x s + dx s) (ball_y s + dy s) (ball_radius s) (ball_color s), Update]"
  by (simp add: update_def update_ball_position_def bounce_off_walls_def clear_canvas_def
      draw_ball_def update_display_def Canvas_clear_def Canvas_circle_def Canvas_update_def Let_def)

lemma update_ball_x: "ball_x (update s) = ball_x s + dx s"
  by (simp add: update_def update_ball_position_def bounce_off_walls_def clear_canvas_def
      draw_ball_def update_display_def Let_def)

lemma update_ball_y: "ball_y (update s) = ball_y s + dy s"
  by (simp add: update_def update_ball_position_def bounce_off_walls_def clear_canvas_def
      draw_ball_def update_display_def Let_def)

lemma update_ball_radius: "ball_radius (update s) = ball_radius s"
  by (simp add: update_def update_ball_position_def bounce_off_walls_def clear_canvas_def
      draw_ball_def update_display_def Let_def)

lemma update_ball_color: "ball_color (update s) = ball_color s"
  by (simp add: update_def update_ball_position_def bounce_off_walls_def clear_canvas_def
      draw_ball_def update_display_def Let_def)

lemma update_dx:
  "dx (update s) =
     (if ball_x s + dx s + ball_radius s > WIDTH \<or> ball_x s + dx s - ball_radius s < 0
      then - dx s else dx s)"
  by (simp add: update_def update_ball_position_def bounce_off_walls_def clear_canvas_def
      draw_ball_def update_display_def Let_def)

lemma update_dy:
  "dy (update s) =
     (if ball_y s + dy s + ball_radius s > HEIGHT \<or> ball_y s + dy s - ball_radius s < 0
      then - dy s else dy s)"
  by (simp add: update_def update_ball_position_def bounce_off_walls_def clear_canvas_def
      draw_ball_def update_display_def Let_def)

lemma update_blocks:
  "update s =
     update_display (draw_ball (clear_canvas (bounce_off_walls (update_ball_position s))))"
  by (simp add: update_def Let_def)

lemma move_ball_x: "ball_x (update_ball_position s) = ball_x s + dx s"
  by (simp add: update_ball_position_def Let_def)

lemma move_ball_y: "ball_y (update_ball_position s) = ball_y s + dy s"
  by (simp add: update_ball_position_def Let_def)

lemma move_ball_radius: "ball_radius (update_ball_position s) = ball_radius s"
  by (simp add: update_ball_position_def Let_def)

lemma move_canvas: "canvas (update_ball_position s) = canvas s"
  by (simp add: update_ball_position_def Let_def)

lemma bounce_canvas: "canvas (bounce_off_walls s) = canvas s"
  by (simp add: bounce_off_walls_def Let_def)

lemma update_abs_dx: "\<bar>dx (update s)\<bar> = \<bar>dx s\<bar>"
  by (simp add: update_dx)

lemma update_abs_dy: "\<bar>dy (update s)\<bar> = \<bar>dy s\<bar>"
  by (simp add: update_dy)

subsection \<open>The run from the initial state\<close>

text \<open>On each axis the ball of the module runs between 15 and the far edge minus 15;
  it moves outwards only while it is at least 20 away from the wall it is heading to.\<close>

lemma x_track:
  "ball_radius (animate n initial) = 20 \<and>
   15 \<le> ball_x (animate n initial) \<and> ball_x (animate n initial) \<le> 785 \<and>
   (dx (animate n initial) = 5 \<and> ball_x (animate n initial) \<le> 780 \<or>
    dx (animate n initial) = - 5 \<and> 20 \<le> ball_x (animate n initial))"
proof (induction n)
  case 0
  show ?case by (simp add: initial_def WIDTH_def)
next
  case (Suc n)
  then show ?case
    by (auto simp add: update_ball_x update_dx update_ball_radius WIDTH_def)
qed

lemma y_track:
  "ball_radius (animate n initial) = 20 \<and>
   15 \<le> ball_y (animate n initial) \<and> ball_y (animate n initial) \<le> 585 \<and>
   (dy (animate n initial) = 5 \<and> ball_y (animate n initial) \<le> 580 \<or>
    dy (animate n initial) = - 5 \<and> 20 \<le> ball_y (animate n initial))"
proof (induction n)
  case 0
  show ?case by (simp add: initial_def HEIGHT_def)
next
  case (Suc n)
  then show ?case
    by (auto simp add: update_ball_y update_dy update_ball_radius HEIGHT_def)
qed

text \<open>The first 76 frames move right without a bounce.\<close>

lemma x_run:
  "n \<le> 76 \<Longrightarrow>
     ball_x (animate n initial) = 400 + 5 * int n \<and> dx (animate n initial) = 5 \<and>
     ball_radius (animate n initial) = 20"
proof (induction n)
  case 0
  show ?case by (simp add: initial_def WIDTH_def)
next
  case (Suc n)
  then show ?case
    by (auto simp add: update_ball_x update_dx update_ball_radius WIDTH_def)
qed

section \<open>The claims\<close>

text \<open>
  C1. For every state before the update, \<open>dx\<close> is negated exactly when the position
  after the move (the old \<open>ball_x\<close> plus the old \<open>dx\<close>) has
  \<open>ball_x + ball_radius > WIDTH\<close> or \<open>ball_x - ball_radius < 0\<close>, both strict, and
  is left as it was otherwise.
\<close>

theorem update_reflects_x:
  "(let p = update_ball_position s in
      ball_x p = ball_x s + dx s \<and>
      dx (update s) =
        (if ball_x p + ball_radius p > WIDTH \<or> ball_x p - ball_radius p < 0
         then - dx s else dx s))"
  by (simp add: Let_def update_dx move_ball_x move_ball_radius)

text \<open>Scenario B of the specification: from \<open>(785, 300)\<close> with velocity \<open>(5, 5)\<close> the
  move gives \<open>x = 790\<close>, \<open>790 + 20 > 800\<close>, and \<open>dx\<close> becomes \<open>-5\<close>.\<close>

theorem update_reflects_x_witness:
  "(let s = \<lparr> canvas = [], ball_x = 785::int, ball_y = 300, ball_radius = 20,
              dx = 5, dy = 5, ball_color = ''red'' \<rparr>
    in ball_x (update_ball_position s) = 790 \<and> dx (update s) = - 5 \<and> dy (update s) = 5)"
  using update_reflects_x
    [of "\<lparr> canvas = [], ball_x = 785::int, ball_y = 300, ball_radius = 20,
            dx = 5, dy = 5, ball_color = ''red'' \<rparr>"]
  by (simp add: Let_def WIDTH_def HEIGHT_def update_dy move_ball_radius)

text \<open>
  C2. For every state before the update, the position after it is the old position plus
  the old velocity, componentwise; the reflection block leaves the position as the move
  block produced it (no clamping).
\<close>

theorem update_position:
  "ball_x (update s) = ball_x s + dx s \<and>
   ball_y (update s) = ball_y s + dy s \<and>
   ball_x (bounce_off_walls t) = ball_x t \<and>
   ball_y (bounce_off_walls t) = ball_y t"
  by (simp add: update_ball_x update_ball_y bounce_off_walls_def Let_def)

text \<open>Scenario A of the specification: one update from the initial state gives position
  \<open>(405, 305)\<close>.\<close>

theorem update_position_witness:
  "ball_x (update initial) = 405 \<and> ball_y (update initial) = 305"
  using update_position [of initial initial]
  by (simp add: initial_def WIDTH_def HEIGHT_def)

text \<open>
  C3. The test on the Y axis is the same with \<open>ball_y\<close>, \<open>dy\<close> and \<open>HEIGHT\<close>, and it
  reads nothing of the X axis, so both components can flip in one update: from position
  \<open>(15, 15)\<close>, velocity \<open>(-5, -5)\<close> and radius \<open>20\<close> one update gives position
  \<open>(10, 10)\<close> and velocity \<open>(5, 5)\<close>.
\<close>

theorem update_reflects_y:
  "(let p = update_ball_position s in
      ball_y p = ball_y s + dy s \<and>
      dy (update s) =
        (if ball_y p + ball_radius p > HEIGHT \<or> ball_y p - ball_radius p < 0
         then - dy s else dy s)) \<and>
   update \<lparr> canvas = c, ball_x = 15::int, ball_y = 15, ball_radius = 20,
            dx = - 5, dy = - 5, ball_color = col \<rparr> =
     \<lparr> canvas = c @ [Clear, Circle 10 10 20 col, Update], ball_x = 10, ball_y = 10,
       ball_radius = 20, dx = 5, dy = 5, ball_color = col \<rparr>"
proof -
  have "update \<lparr> canvas = c, ball_x = 15::int, ball_y = 15, ball_radius = 20,
            dx = - 5, dy = - 5, ball_color = col \<rparr> =
     \<lparr> canvas = c @ [Clear, Circle 10 10 20 col, Update], ball_x = 10, ball_y = 10,
       ball_radius = 20, dx = 5, dy = 5, ball_color = col \<rparr>"
    by (simp add: update_def update_ball_position_def bounce_off_walls_def clear_canvas_def
        draw_ball_def update_display_def Canvas_clear_def Canvas_circle_def Canvas_update_def
        Let_def WIDTH_def HEIGHT_def)
  then show ?thesis
    by (simp add: Let_def update_dy move_ball_y move_ball_radius)
qed

text \<open>
  C4. Every call of \<open>update\<close> makes exactly three calls on the canvas, in this order:
  \<open>clear\<close>, one \<open>circle\<close> at the updated position with the ball's radius and colour,
  and \<open>update\<close>. The move and the reflection blocks come first and make no canvas call;
  the three drawing blocks change nothing but the canvas.
\<close>

theorem update_canvas_calls:
  "canvas (update s) =
     canvas s @ [Clear,
                 Circle (ball_x (update s)) (ball_y (update s))
                        (ball_radius (update s)) (ball_color (update s)),
                 Update] \<and>
   update s =
     update_display (draw_ball (clear_canvas (bounce_off_walls (update_ball_position s)))) \<and>
   canvas (bounce_off_walls (update_ball_position s)) = canvas s \<and>
   update s = (bounce_off_walls (update_ball_position s))\<lparr>canvas := canvas (update s)\<rparr>"
proof -
  have calls: "canvas (update s) =
     canvas s @ [Clear,
                 Circle (ball_x (update s)) (ball_y (update s))
                        (ball_radius (update s)) (ball_color (update s)),
                 Update]"
    by (simp add: update_canvas update_ball_x update_ball_y update_ball_radius
        update_ball_color)
  have quiet: "canvas (bounce_off_walls (update_ball_position s)) = canvas s"
    by (simp add: bounce_canvas move_canvas)
  have rest: "update s =
      (bounce_off_walls (update_ball_position s))\<lparr>canvas := canvas (update s)\<rparr>"
    by (simp add: update_blocks clear_canvas_def draw_ball_def update_display_def)
  from calls update_blocks [of s] quiet rest show ?thesis
    by blast
qed


text \<open>
  C5. There is a ball state, inside the canvas and moving towards the right wall, from
  which one update leaves the ball overhanging the right edge
  (\<open>ball_x + ball_radius > WIDTH\<close>) with \<open>dx\<close> negated: the position is the moved
  one, not clamped back.
\<close>

theorem update_no_clamp:
  "\<exists>s :: int globals.
     0 < dx s \<and> 0 \<le> ball_x s - ball_radius s \<and> ball_x s + ball_radius s \<le> WIDTH \<and>
     ball_x (update s) = ball_x s + dx s \<and>
     WIDTH < ball_x (update s) + ball_radius (update s) \<and>
     dx (update s) = - dx s"
  by (rule exI [of _ "\<lparr> canvas = [], ball_x = 780, ball_y = 300, ball_radius = 20,
                        dx = 5, dy = 5, ball_color = ''red'' \<rparr>"])
     (simp add: update_ball_x update_ball_radius update_dx WIDTH_def)

text \<open>
  C6. \<open>ball_radius\<close> and \<open>ball_color\<close> are the same after any number of updates from
  any state, and so stay \<open>20\<close> and \<open>''red''\<close> from the initial state; an update
  changes only the position, the velocity and what is drawn on the canvas.
\<close>

theorem radius_color_fixed:
  "ball_radius (animate n s) = ball_radius s \<and>
   ball_color (animate n s) = ball_color s \<and>
   ball_radius (animate n initial) = 20 \<and>
   ball_color (animate n initial) = ''red'' \<and>
   update s = s\<lparr>canvas := canvas (update s),
                ball_x := ball_x (update s), ball_y := ball_y (update s),
                dx := dx (update s), dy := dy (update s)\<rparr>"
proof -
  have r: "ball_radius (animate n t) = ball_radius t" for t :: "'b::linordered_idom globals"
    by (induction n) (simp_all add: update_ball_radius)
  have c: "ball_color (animate n t) = ball_color t" for t :: "'b::linordered_idom globals"
    by (induction n) (simp_all add: update_ball_color)
  have u: "update s = s\<lparr>canvas := canvas (update s),
                ball_x := ball_x (update s), ball_y := ball_y (update s),
                dx := dx (update s), dy := dy (update s)\<rparr>"
    by (simp add: update_ball_radius update_ball_color)
  from r [of s] c [of s] r [of initial] c [of initial] u show ?thesis
    by (simp add: initial_def)
qed



text \<open>
  C8. From the initial state of the module, after any number of updates
  \<open>15 \<le> ball_x \<le> 785\<close> and \<open>15 \<le> ball_y \<le> 585\<close>, and \<open>dx\<close> and \<open>dy\<close> are
  \<open>5\<close> or \<open>-5\<close>. So the ball never overhangs an edge of the canvas by more than 5, and
  it is never outside the canvas in two frames in a row.
\<close>

theorem reachable_bounds:
  "15 \<le> ball_x (animate n initial) \<and> ball_x (animate n initial) \<le> 785 \<and>
   15 \<le> ball_y (animate n initial) \<and> ball_y (animate n initial) \<le> 585 \<and>
   dx (animate n initial) \<in> {- 5, 5} \<and> dy (animate n initial) \<in> {- 5, 5} \<and>
   ball_x (animate n initial) + ball_radius (animate n initial) \<le> WIDTH + 5 \<and>
   - 5 \<le> ball_x (animate n initial) - ball_radius (animate n initial) \<and>
   ball_y (animate n initial) + ball_radius (animate n initial) \<le> HEIGHT + 5 \<and>
   - 5 \<le> ball_y (animate n initial) - ball_radius (animate n initial) \<and>
   (ball_x (animate n initial) + ball_radius (animate n initial) \<le> WIDTH \<and>
    0 \<le> ball_x (animate n initial) - ball_radius (animate n initial) \<or>
    ball_x (animate (Suc n) initial) + ball_radius (animate (Suc n) initial) \<le> WIDTH \<and>
    0 \<le> ball_x (animate (Suc n) initial) - ball_radius (animate (Suc n) initial)) \<and>
   (ball_y (animate n initial) + ball_radius (animate n initial) \<le> HEIGHT \<and>
    0 \<le> ball_y (animate n initial) - ball_radius (animate n initial) \<or>
    ball_y (animate (Suc n) initial) + ball_radius (animate (Suc n) initial) \<le> HEIGHT \<and>
    0 \<le> ball_y (animate (Suc n) initial) - ball_radius (animate (Suc n) initial))"
proof -
  have x: "ball_x (animate n initial) + ball_radius (animate n initial) \<le> WIDTH \<and>
      0 \<le> ball_x (animate n initial) - ball_radius (animate n initial) \<or>
      ball_x (animate (Suc n) initial) + ball_radius (animate (Suc n) initial) \<le> WIDTH \<and>
      0 \<le> ball_x (animate (Suc n) initial) - ball_radius (animate (Suc n) initial)"
    using x_track [of n] by (auto simp add: update_ball_x update_ball_radius WIDTH_def)
  have y: "ball_y (animate n initial) + ball_radius (animate n initial) \<le> HEIGHT \<and>
      0 \<le> ball_y (animate n initial) - ball_radius (animate n initial) \<or>
      ball_y (animate (Suc n) initial) + ball_radius (animate (Suc n) initial) \<le> HEIGHT \<and>
      0 \<le> ball_y (animate (Suc n) initial) - ball_radius (animate (Suc n) initial)"
    using y_track [of n] by (auto simp add: update_ball_y update_ball_radius HEIGHT_def)
  have b: "15 \<le> ball_x (animate n initial) \<and> ball_x (animate n initial) \<le> 785 \<and>
      15 \<le> ball_y (animate n initial) \<and> ball_y (animate n initial) \<le> 585 \<and>
      dx (animate n initial) \<in> {- 5, 5} \<and> dy (animate n initial) \<in> {- 5, 5} \<and>
      ball_x (animate n initial) + ball_radius (animate n initial) \<le> WIDTH + 5 \<and>
      - 5 \<le> ball_x (animate n initial) - ball_radius (animate n initial) \<and>
      ball_y (animate n initial) + ball_radius (animate n initial) \<le> HEIGHT + 5 \<and>
      - 5 \<le> ball_y (animate n initial) - ball_radius (animate n initial)"
    using x_track [of n] y_track [of n] by (auto simp add: WIDTH_def HEIGHT_def)
  from b x y show ?thesis by blast
qed

text \<open>
  C9. An update keeps the absolute value of each velocity component, for every state,
  and so does any number of updates.
\<close>

theorem speed_preserved:
  "\<bar>dx (update s)\<bar> = \<bar>dx s\<bar> \<and> \<bar>dy (update s)\<bar> = \<bar>dy s\<bar> \<and>
   \<bar>dx (animate n s)\<bar> = \<bar>dx s\<bar> \<and> \<bar>dy (animate n s)\<bar> = \<bar>dy s\<bar>"
proof -
  have "\<bar>dx (animate n s)\<bar> = \<bar>dx s\<bar>"
    by (induction n) (simp_all add: update_abs_dx)
  moreover have "\<bar>dy (animate n s)\<bar> = \<bar>dy s\<bar>"
    by (induction n) (simp_all add: update_abs_dy)
  ultimately show ?thesis
    by (simp add: update_abs_dx update_abs_dy)
qed

text \<open>
  C10. A ball that touches a wall exactly after the move does not bounce: if the moved
  position has \<open>ball_x + ball_radius = WIDTH\<close> and \<open>ball_x - ball_radius \<ge> 0\<close>, or
  \<open>ball_x - ball_radius = 0\<close> and \<open>ball_x + ball_radius \<le> WIDTH\<close>, then \<open>dx\<close> is
  unchanged, and likewise on the Y axis. The run from the initial state reaches such a
  state: \<open>ball_x = 780\<close> with radius \<open>20\<close>.
\<close>

theorem tangency_no_bounce:
  "(ball_x (update s) + ball_radius (update s) = WIDTH \<and>
      0 \<le> ball_x (update s) - ball_radius (update s) \<longrightarrow> dx (update s) = dx s) \<and>
   (ball_x (update s) - ball_radius (update s) = 0 \<and>
      ball_x (update s) + ball_radius (update s) \<le> WIDTH \<longrightarrow> dx (update s) = dx s) \<and>
   (ball_y (update s) + ball_radius (update s) = HEIGHT \<and>
      0 \<le> ball_y (update s) - ball_radius (update s) \<longrightarrow> dy (update s) = dy s) \<and>
   (ball_y (update s) - ball_radius (update s) = 0 \<and>
      ball_y (update s) + ball_radius (update s) \<le> HEIGHT \<longrightarrow> dy (update s) = dy s) \<and>
   (\<exists>n. ball_x (animate (Suc n) initial) = 780 \<and>
        ball_x (animate (Suc n) initial) + ball_radius (animate (Suc n) initial) = WIDTH \<and>
        0 \<le> ball_x (animate (Suc n) initial) - ball_radius (animate (Suc n) initial) \<and>
        dx (animate (Suc n) initial) = dx (animate n initial))"
proof -
  have reach: "\<exists>n. ball_x (animate (Suc n) initial) = 780 \<and>
        ball_x (animate (Suc n) initial) + ball_radius (animate (Suc n) initial) = WIDTH \<and>
        0 \<le> ball_x (animate (Suc n) initial) - ball_radius (animate (Suc n) initial) \<and>
        dx (animate (Suc n) initial) = dx (animate n initial)"
  proof (rule exI [of _ 75])
    have "ball_x (animate 76 initial) = 780 \<and> dx (animate 76 initial) = 5 \<and>
        ball_radius (animate 76 initial) = 20"
      using x_run [of 76] by simp
    moreover have "dx (animate 75 initial) = 5"
      using x_run [of 75] by simp
    moreover have "Suc 75 = 76" by simp
    ultimately show "ball_x (animate (Suc 75) initial) = 780 \<and>
        ball_x (animate (Suc 75) initial) + ball_radius (animate (Suc 75) initial) = WIDTH \<and>
        0 \<le> ball_x (animate (Suc 75) initial) - ball_radius (animate (Suc 75) initial) \<and>
        dx (animate (Suc 75) initial) = dx (animate 75 initial)"
      by (simp add: WIDTH_def)
  qed
  have x_hi: "ball_x (update s) + ball_radius (update s) = WIDTH \<and>
      0 \<le> ball_x (update s) - ball_radius (update s) \<longrightarrow> dx (update s) = dx s"
    by (simp add: update_ball_x update_ball_radius update_dx)
  have x_lo: "ball_x (update s) - ball_radius (update s) = 0 \<and>
      ball_x (update s) + ball_radius (update s) \<le> WIDTH \<longrightarrow> dx (update s) = dx s"
    by (simp add: update_ball_x update_ball_radius update_dx)
  have y_hi: "ball_y (update s) + ball_radius (update s) = HEIGHT \<and>
      0 \<le> ball_y (update s) - ball_radius (update s) \<longrightarrow> dy (update s) = dy s"
    by (simp add: update_ball_y update_ball_radius update_dy)
  have y_lo: "ball_y (update s) - ball_radius (update s) = 0 \<and>
      ball_y (update s) + ball_radius (update s) \<le> HEIGHT \<longrightarrow> dy (update s) = dy s"
    by (simp add: update_ball_y update_ball_radius update_dy)
  from x_hi x_lo y_hi y_lo reach show ?thesis by blast
qed

text \<open>Tangent on the right and at the bottom after a move from \<open>(775, 575)\<close>, and on the
  left and at the top after a move from \<open>(25, 25)\<close>: no component flips.\<close>

theorem tangency_no_bounce_witness:
  "(let s = \<lparr> canvas = [], ball_x = 775::int, ball_y = 575, ball_radius = 20,
              dx = 5, dy = 5, ball_color = ''red'' \<rparr>
    in ball_x (update s) + ball_radius (update s) = WIDTH \<and>
       0 \<le> ball_x (update s) - ball_radius (update s) \<and>
       ball_y (update s) + ball_radius (update s) = HEIGHT \<and>
       0 \<le> ball_y (update s) - ball_radius (update s) \<and>
       dx (update s) = 5 \<and> dy (update s) = 5) \<and>
   (let s = \<lparr> canvas = [], ball_x = 25::int, ball_y = 25, ball_radius = 20,
              dx = - 5, dy = - 5, ball_color = ''red'' \<rparr>
    in ball_x (update s) - ball_radius (update s) = 0 \<and>
       ball_x (update s) + ball_radius (update s) \<le> WIDTH \<and>
       ball_y (update s) - ball_radius (update s) = 0 \<and>
       ball_y (update s) + ball_radius (update s) \<le> HEIGHT \<and>
       dx (update s) = - 5 \<and> dy (update s) = - 5)"
proof -
  let ?a = "\<lparr> canvas = [], ball_x = 775::int, ball_y = 575, ball_radius = 20,
              dx = 5, dy = 5, ball_color = ''red'' \<rparr>"
  let ?b = "\<lparr> canvas = [], ball_x = 25::int, ball_y = 25, ball_radius = 20,
              dx = - 5, dy = - 5, ball_color = ''red'' \<rparr>"
  have ha: "ball_x (update ?a) + ball_radius (update ?a) = WIDTH \<and>
       0 \<le> ball_x (update ?a) - ball_radius (update ?a) \<and>
       ball_y (update ?a) + ball_radius (update ?a) = HEIGHT \<and>
       0 \<le> ball_y (update ?a) - ball_radius (update ?a)"
    by (simp add: update_ball_x update_ball_y update_ball_radius WIDTH_def HEIGHT_def)
  have hb: "ball_x (update ?b) - ball_radius (update ?b) = 0 \<and>
       ball_x (update ?b) + ball_radius (update ?b) \<le> WIDTH \<and>
       ball_y (update ?b) - ball_radius (update ?b) = 0 \<and>
       ball_y (update ?b) + ball_radius (update ?b) \<le> HEIGHT"
    by (simp add: update_ball_x update_ball_y update_ball_radius WIDTH_def HEIGHT_def)
  from tangency_no_bounce [of ?a] ha
  have ca: "dx (update ?a) = dx ?a \<and> dy (update ?a) = dy ?a"
    by blast
  from tangency_no_bounce [of ?b] hb
  have cb: "dx (update ?b) = dx ?b \<and> dy (update ?b) = dy ?b"
    by blast
  from ha hb ca cb show ?thesis
    by (simp add: Let_def)
qed

end
